theory Spec2Isabelle
  imports Complex_Main "HOL-Library.Word"
begin

section \<open>Python exceptions\<close>

text \<open>
  The exceptions of the modelled code: the three it raises itself, and
  \<open>InvalidShape\<close> for the array library refusing a shape. A function that can raise
  returns \<open>error + 'a\<close>, with \<open>Inl\<close> for the exception.
\<close>

datatype error =
    NotImplementedError
  | AssertionError string
  | ZeroDivisionError
  | InvalidShape

section \<open>MaxText/maxengine\_config.py\<close>

text \<open>
  Python's \<open>str\<close> on a non-negative integer: the decimal digits, most significant
  first, no leading zero. \<open>jax.device_count()\<close> is a count, hence a \<open>nat\<close>.
\<close>

definition digit_char :: "nat \<Rightarrow> char" where
  "digit_char d = ''0123456789'' ! d"

function str_nat :: "nat \<Rightarrow> string" where
  "str_nat n = (if n < 10 then [digit_char n] else str_nat (n div 10) @ [digit_char (n mod 10)])"
  by pat_completeness auto
termination
  by (relation "measure id") auto

declare str_nat.simps [simp del]

text \<open>
  \<open>create_maxengine(devices, config)\<close> deletes its first argument and returns
  \<open>maxengine.MaxEngine(config)\<close>. The class \<open>MaxEngine\<close> lives in a module that
  is not part of the sources at hand, so its constructor is a parameter of the model.
\<close>

definition create_maxengine :: "('c \<Rightarrow> 'e) \<Rightarrow> 'd \<Rightarrow> 'c \<Rightarrow> 'e" where
  "create_maxengine MaxEngine devices config = MaxEngine config"

text \<open>
  \<open>functools.partial(create_maxengine, config=config)\<close>: the callable that still
  expects the positional argument \<open>devices\<close>.
\<close>

definition partial_config :: "('d \<Rightarrow> 'c \<Rightarrow> 'e) \<Rightarrow> 'c \<Rightarrow> ('d \<Rightarrow> 'e)" where
  "partial_config fn config = (\<lambda>devices. fn devices config)"

text \<open>
  \<open>config_lib.ServerConfig\<close> of the serving framework, with the six fields the code
  sets. Tuples are lists.
\<close>

record ('d, 'e) ServerConfig =
  prefill_slices :: "string list"
  generate_slices :: "string list"
  interleaved_slices :: "string list"
  prefill_engine_create_fns :: "('d \<Rightarrow> 'e) list"
  generate_engine_create_fns :: "('d \<Rightarrow> 'e) list"
  interleaved_engine_create_fns :: "('d \<Rightarrow> 'e) list"

text \<open>
  \<open>get_server_config(config_str, config)\<close>. The \<open>match\<close> statement has one literal
  case and a wildcard that raises. \<open>device_count\<close> is what \<open>jax.device_count()\<close>
  returns.
\<close>

definition get_server_config ::
  "nat \<Rightarrow> ('c \<Rightarrow> 'e) \<Rightarrow> string \<Rightarrow> 'c \<Rightarrow> error + ('d, 'e) ServerConfig" where
  "get_server_config device_count MaxEngine config_str config =
     (if config_str = ''MaxtextInterleavedServer'' then
        Inr \<lparr> prefill_slices = [],
              generate_slices = [],
              interleaved_slices = [''tpu='' @ str_nat device_count],
              prefill_engine_create_fns = [],
              generate_engine_create_fns = [],
              interleaved_engine_create_fns =
                [partial_config (create_maxengine MaxEngine) config] \<rparr>
      else Inl NotImplementedError)"

section \<open>MaxText/maxengine\_server.py\<close>

text \<open>
  \<open>main(config)\<close> fetches the devices, asks for the server configuration and hands
  both to \<open>server_lib.run\<close>. The model returns the arguments of that call; what the
  serving framework does with them is outside the repository.
\<close>

record ('d, 'e) run_call =
  threads :: nat
  port :: nat
  config :: "('d, 'e) ServerConfig"
  devices :: 'd

definition main :: "nat \<Rightarrow> ('c \<Rightarrow> 'e) \<Rightarrow> 'd \<Rightarrow> 'c \<Rightarrow> error + ('d, 'e) run_call" where
  "main device_count MaxEngine get_devices cfg =
     (case get_server_config device_count MaxEngine ''MaxtextInterleavedServer'' cfg of
        Inl e \<Rightarrow> Inl e
      | Inr server_config \<Rightarrow>
          Inr \<lparr> threads = 128, port = 9000, config = server_config, devices = get_devices \<rparr>)"

section \<open>pedagogical\_examples/xaot\_shardings.py: simple\_timeit\<close>

text \<open>
  \<open>simple_timeit(f, tries=5, verbose=True)\<close> has two effects besides its result: it
  calls \<open>f\<close> and it reads the clock. Both act on a world \<open>'w\<close> that the model
  passes along: \<open>f :: 'w \<Rightarrow> 'w\<close> is a call of \<open>f\<close> that returns, and
  \<open>now :: 'w \<Rightarrow> int \<times> 'w\<close> is \<open>datetime.datetime.now()\<close>, which yields a time
  stamp (in microseconds, the resolution of \<open>datetime\<close>) and the world after the
  reading. Beside the world the model keeps a log of what happened, in order.
\<close>

datatype event =
    Invoke
  | Clock int
  | Print real "real list"

type_synonym 'w run = "'w \<times> event list"

definition call :: "('w \<Rightarrow> 'w) \<Rightarrow> 'w run \<Rightarrow> 'w run" where
  "call f st = (f (fst st), snd st @ [Invoke])"

definition datetime_now :: "('w \<Rightarrow> int \<times> 'w) \<Rightarrow> 'w run \<Rightarrow> int \<times> 'w run" where
  "datetime_now now st = (case now (fst st) of (t, w) \<Rightarrow> (t, (w, snd st @ [Clock t])))"

text \<open>
  \<open>(e - s).total_seconds()\<close>: the difference of two time stamps is an exact number of
  microseconds; the model keeps the quotient by \<open>10^6\<close> exact as well.
\<close>

definition total_seconds :: "int \<Rightarrow> real" where
  "total_seconds us = real_of_int us / 10 ^ 6"

text \<open>The body of \<open>for _ in range(tries)\<close>, with the iterations still to run.\<close>

fun timed_runs ::
  "('w \<Rightarrow> 'w) \<Rightarrow> ('w \<Rightarrow> int \<times> 'w) \<Rightarrow> nat \<Rightarrow> real list \<Rightarrow> 'w run \<Rightarrow> real list \<times> 'w run" where
  "timed_runs f now 0 outcomes st = (outcomes, st)"
| "timed_runs f now (Suc k) outcomes st =
     (case datetime_now now st of (s, st1) \<Rightarrow>
        (case datetime_now now (call f st1) of (e, st3) \<Rightarrow>
           timed_runs f now k (outcomes @ [total_seconds (e - s)]) st3))"

text \<open>
  The arguments \<open>tries\<close> and \<open>verbose\<close> are optional: \<open>None\<close> stands for an
  argument the caller left out. \<open>range(tries)\<close> is empty for \<open>tries \<le> 0\<close>, and then
  \<open>sum(outcomes)/len(outcomes)\<close> divides by zero.
\<close>

definition simple_timeit ::
  "('w \<Rightarrow> 'w) \<Rightarrow> ('w \<Rightarrow> int \<times> 'w) \<Rightarrow> int option \<Rightarrow> bool option \<Rightarrow> 'w run
     \<Rightarrow> (error + real) \<times> 'w run" where
  "simple_timeit f now tries_arg verbose_arg st =
     (let tries = (case tries_arg of None \<Rightarrow> 5 | Some t \<Rightarrow> t);
          verbose = (case verbose_arg of None \<Rightarrow> True | Some v \<Rightarrow> v)
      in case timed_runs f now (nat tries) [] (call f st) of (outcomes, st2) \<Rightarrow>
           if length outcomes = 0 then (Inl ZeroDivisionError, st2)
           else let average_time = sum_list outcomes / real (length outcomes)
                in (Inr average_time,
                    if verbose then (fst st2, snd st2 @ [Print average_time outcomes])
                    else st2))"

text \<open>How often \<open>f\<close> was called, read off a log.\<close>

definition invocations :: "event list \<Rightarrow> nat" where
  "invocations lg = length (filter (\<lambda>ev. ev = Invoke) lg)"

text \<open>
  What one timed iteration leaves in the log and in \<open>outcomes\<close>, given its two clock
  readings.
\<close>

definition bracket :: "int \<times> int \<Rightarrow> event list" where
  "bracket p = [Clock (fst p), Invoke, Clock (snd p)]"

definition duration :: "int \<times> int \<Rightarrow> real" where
  "duration p = total_seconds (snd p - fst p)"

section \<open>pedagogical\_examples/xaot\_shardings.py: arguments and sizes\<close>

text \<open>
  The parsed command line. Every numeric option is declared with \<open>type=int\<close>, a
  Python integer of any size and sign.
\<close>

record args =
  profiler_path :: string
  embedding_dimension :: int
  batch_size :: int
  num_layers :: int
  dcn_data_parallelism :: int
  dcn_fsdp_parallelism :: int
  dcn_tensor_parallelism :: int
  ici_data_parallelism :: int
  ici_fsdp_parallelism :: int
  ici_tensor_parallelism :: int

text \<open>The defaults the parser declares.\<close>

definition default_args :: args where
  "default_args =
     \<lparr> profiler_path = '''',
       embedding_dimension = 2048,
       batch_size = 131072,
       num_layers = 4,
       dcn_data_parallelism = 1,
       dcn_fsdp_parallelism = 1,
       dcn_tensor_parallelism = 1,
       ici_data_parallelism = 1,
       ici_fsdp_parallelism = 4,
       ici_tensor_parallelism = 1 \<rparr>"

definition dcn_parallelism :: "args \<Rightarrow> int list" where
  "dcn_parallelism a =
     [dcn_data_parallelism a, dcn_fsdp_parallelism a, dcn_tensor_parallelism a]"

definition ici_parallelism :: "args \<Rightarrow> int list" where
  "ici_parallelism a =
     [ici_data_parallelism a, ici_fsdp_parallelism a, ici_tensor_parallelism a]"

text \<open>
  The sizes of the synthetic network. \<open>n\<close> is \<open>len(devices)\<close>. All of this is
  arithmetic on Python integers, which is exact.
\<close>

definition BATCH :: "args \<Rightarrow> nat \<Rightarrow> int" where
  "BATCH a n = int n * batch_size a"

definition D_EMB :: "args \<Rightarrow> int" where
  "D_EMB a = embedding_dimension a"

definition D_FF :: "args \<Rightarrow> int" where
  "D_FF a = 4 * D_EMB a"

definition NUM_LAYERS :: "args \<Rightarrow> int" where
  "NUM_LAYERS a = num_layers a"

definition parameters :: "args \<Rightarrow> int" where
  "parameters a = 2 * D_FF a * D_EMB a * NUM_LAYERS a"

definition parameter_bytes :: "args \<Rightarrow> int" where
  "parameter_bytes a = 2 * parameters a"

definition activation_bytes :: "args \<Rightarrow> nat \<Rightarrow> int" where
  "activation_bytes a n = 2 * (BATCH a n * (D_FF a + D_EMB a)) * NUM_LAYERS a"

definition memory_bytes :: "args \<Rightarrow> nat \<Rightarrow> int" where
  "memory_bytes a n = parameter_bytes a + activation_bytes a n"




section \<open>pedagogical\_examples/xaot\_shardings.py: the device mesh\<close>

text \<open>
  \<open>np.product\<close> of a list of Python integers. NumPy turns the list into an array of
  64-bit signed integers when every element fits that type, and multiplies in that
  type: the product wraps around modulo \<open>2^64\<close>. The two products are NumPy 64-bit
  scalars, and so is their product. Lists with an element outside the 64-bit range get
  another element type; the model is for lists within the range (\<open>int64_args\<close>).
\<close>

definition fits_int64 :: "int \<Rightarrow> bool" where
  "fits_int64 x = (- (2 ^ 63) \<le> x \<and> x < 2 ^ 63)"

definition int64_args :: "args \<Rightarrow> bool" where
  "int64_args a = list_all fits_int64 (dcn_parallelism a @ ici_parallelism a)"

definition np_product :: "int list \<Rightarrow> 64 word" where
  "np_product xs = prod_list (map word_of_int xs)"

text \<open>
  What the script learns from the runtime about its devices: how many there are,
  whether the first one has a \<open>slice_index\<close> attribute, and the largest
  \<open>slice_index\<close> among \<open>jax.devices()\<close>.
\<close>

record env =
  num_devices :: nat
  multi_slice_env :: bool
  max_slice_index :: int

text \<open>
  The mesh is built by the library; the model records which constructor the script
  calls and with which shapes.
\<close>

datatype devices_array =
    Create_hybrid_device_mesh "int list" "int list"
  | Create_device_mesh "int list"

record mesh =
  mesh_devices :: devices_array
  axis_names :: "string list"

text \<open>
  Lines 135 to 177: the two assertions on the devices, the assertion of the multi-slice
  branch, and the mesh. The messages of the assertions are shortened to their fixed
  text.
\<close>

definition create_mesh :: "args \<Rightarrow> env \<Rightarrow> error + mesh" where
  "create_mesh a ev =
     (if \<not> 1 < num_devices ev then
        Inl (AssertionError ''You must have at least two devices'')
      else if sint (np_product (dcn_parallelism a) * np_product (ici_parallelism a))
                \<noteq> int (num_devices ev) then
        Inl (AssertionError ''Number of devices does not match the product of the parallelism'')
      else if multi_slice_env ev then
        (if dcn_data_parallelism a = 1 + max_slice_index ev then
           Inr \<lparr> mesh_devices =
                   Create_hybrid_device_mesh (ici_parallelism a) (dcn_parallelism a),
                 axis_names = [''data'', ''fsdp'', ''tensor''] \<rparr>
         else Inl (AssertionError ''Number of slices given does not match the number fetched from jax devices''))
      else
        Inr \<lparr> mesh_devices = Create_device_mesh (ici_parallelism a),
              axis_names = [''data'', ''fsdp'', ''tensor''] \<rparr>)"

section \<open>pedagogical\_examples/xaot\_shardings.py: synthetic parameters and data\<close>

text \<open>
  Random keys are symbolic: \<open>Split k num i\<close> is element \<open>i\<close> of
  \<open>jax.random.split(k, num)\<close>. An array is its shape, its element type and a
  description of where its entries come from; the entries themselves (bfloat16
  numbers) are not modelled.
\<close>

datatype key = PRNGKey int | Split key nat nat

datatype dtype = Bfloat16

datatype entries = Normal key | Uniform key | Scaled entries

record array =
  shape :: "int list"
  dtype :: dtype
  entries :: entries

text \<open>
  \<open>jax.random.normal(key, shape, dtype)\<close> and \<open>jax.random.uniform\<close>: an array of
  the shape and type asked for. The library refuses a shape with a negative dimension;
  the class of the exception is the library's affair, and the model renders it as
  \<open>InvalidShape\<close>.
\<close>

definition random_array :: "(key \<Rightarrow> entries) \<Rightarrow> key \<Rightarrow> int list \<Rightarrow> dtype \<Rightarrow> error + array" where
  "random_array sampler k shp dt =
     (if list_all (\<lambda>d. 0 \<le> d) shp
      then Inr \<lparr> shape = shp, dtype = dt, entries = sampler k \<rparr>
      else Inl InvalidShape)"

text \<open>\<open>1e-4 * x\<close> for an array \<open>x\<close>: same shape, same element type.\<close>

definition scaled :: "array \<Rightarrow> array" where
  "scaled x = x \<lparr> entries := Scaled (entries x) \<rparr>"

type_synonym layer = "string \<rightharpoonup> array"

definition gen_layer :: "args \<Rightarrow> key \<Rightarrow> error + layer" where
  "gen_layer a random_key =
     (case random_array Normal (Split random_key 4 0) [D_FF a, D_EMB a] Bfloat16 of
        Inl e \<Rightarrow> Inl e
      | Inr emb2ff \<Rightarrow>
          (case random_array Normal (Split random_key 4 1) [D_FF a, D_EMB a] Bfloat16 of
             Inl e \<Rightarrow> Inl e
           | Inr ff2emb \<Rightarrow>
               Inr [''EMB2FF'' \<mapsto> scaled emb2ff, ''FF2EMB'' \<mapsto> scaled ff2emb]))"

text \<open>
  The loop of \<open>gen_layers\<close>, with the iterations still to run: each one splits the
  key in two, keeps the first half and generates a layer from the second.
\<close>

fun gen_layers_loop :: "args \<Rightarrow> nat \<Rightarrow> key \<Rightarrow> layer list \<Rightarrow> error + layer list" where
  "gen_layers_loop a 0 random_key layers = Inr layers"
| "gen_layers_loop a (Suc k) random_key layers =
     (case gen_layer a (Split random_key 2 1) of
        Inl e \<Rightarrow> Inl e
      | Inr l \<Rightarrow> gen_layers_loop a k (Split random_key 2 0) (layers @ [l]))"

definition gen_layers :: "args \<Rightarrow> key \<Rightarrow> error + layer list" where
  "gen_layers a random_key = gen_layers_loop a (nat (NUM_LAYERS a)) random_key []"

definition gen_data :: "args \<Rightarrow> nat \<Rightarrow> key \<Rightarrow> error + array" where
  "gen_data a n random_key = random_array Uniform random_key [BATCH a n, D_EMB a] Bfloat16"

text \<open>A layer as the script means it: both matrices, of the given shape, in bfloat16.\<close>

definition layer_ok :: "args \<Rightarrow> layer \<Rightarrow> bool" where
  "layer_ok a l =
     (dom l = {''EMB2FF'', ''FF2EMB''}
      \<and> (case (l ''EMB2FF'', l ''FF2EMB'') of
           (Some x, Some y) \<Rightarrow>
             shape x = [4 * embedding_dimension a, embedding_dimension a] \<and> dtype x = Bfloat16
           \<and> shape y = [4 * embedding_dimension a, embedding_dimension a] \<and> dtype y = Bfloat16
         | _ \<Rightarrow> False))"

section \<open>pedagogical\_examples/xaot\_shardings.py: saving the compiled functions\<close>


















section \<open>Properties of the server configuration\<close>

lemma str_nat_digit: "n < 10 \<Longrightarrow> str_nat n = [digit_char n]"
  by (simp add: str_nat.simps)

lemma str_nat_step: "10 \<le> n \<Longrightarrow> str_nat n = str_nat (n div 10) @ [digit_char (n mod 10)]"
  by (subst str_nat.simps) simp

lemma str_nat_examples:
  "str_nat 0 = ''0''" "str_nat 4 = ''4''" "str_nat 8 = ''8''" "str_nat 2048 = ''2048''"
  by code_simp+

text \<open>
  C1. For every config, \<open>get_server_config('MaxtextInterleavedServer', config)\<close>
  returns a ServerConfig whose prefill and generate slices and engine-creation tuples
  are empty, whose \<open>interleaved_slices\<close> is the one-element tuple \<open>'tpu=' + str(device
  count)\<close>, and whose \<open>interleaved_engine_create_fns\<close> holds exactly one function, the
  partial application of \<open>create_maxengine\<close> to that config; \<open>main\<close> passes exactly
  this configuration to the server.
\<close>

theorem interleaved_server_config:
  "get_server_config n MaxEngine ''MaxtextInterleavedServer'' cfg =
     Inr \<lparr> prefill_slices = [], generate_slices = [],
           interleaved_slices = [''tpu='' @ str_nat n],
           prefill_engine_create_fns = [], generate_engine_create_fns = [],
           interleaved_engine_create_fns = [\<lambda>d. create_maxengine MaxEngine d cfg] \<rparr>
   \<and> main n MaxEngine devs cfg =
     Inr \<lparr> threads = 128, port = 9000,
           config = \<lparr> prefill_slices = [], generate_slices = [],
             interleaved_slices = [''tpu='' @ str_nat n],
             prefill_engine_create_fns = [], generate_engine_create_fns = [],
             interleaved_engine_create_fns = [\<lambda>d. create_maxengine MaxEngine d cfg] \<rparr>,
           devices = devs \<rparr>"
  by (simp add: get_server_config_def main_def partial_config_def)

text \<open>
  C2. \<open>get_server_config(config_str, config)\<close> returns a ServerConfig exactly when
  \<open>config_str\<close> is \<open>'MaxtextInterleavedServer'\<close>; for every other string it raises
  NotImplementedError and produces no configuration.
\<close>

theorem get_server_config_iff:
  "((\<exists>sc :: ('d, 'e) ServerConfig. get_server_config n MaxEngine s cfg = Inr sc)
      \<longleftrightarrow> s = ''MaxtextInterleavedServer'')
   \<and> (s \<noteq> ''MaxtextInterleavedServer'' \<longrightarrow>
        get_server_config n MaxEngine s cfg
          = (Inl NotImplementedError :: error + ('d, 'e) ServerConfig))"
  by (simp add: get_server_config_def)

theorem get_server_config_iff_witness:
  "''MaxtextPrefillServer'' \<noteq> ''MaxtextInterleavedServer''
   \<and> get_server_config 4 (\<lambda>c::nat. c) ''MaxtextPrefillServer'' 7
       = (Inl NotImplementedError :: error + (unit, nat) ServerConfig)
   \<and> \<not> (\<exists>sc :: (unit, nat) ServerConfig.
          get_server_config 4 (\<lambda>c::nat. c) ''MaxtextPrefillServer'' 7 = Inr sc)"
  using get_server_config_iff [where ?'d = unit, of 4 "\<lambda>c::nat. c" "''MaxtextPrefillServer''" 7]
  by simp

text \<open>
  C9. \<open>create_maxengine\<close> does not depend on its \<open>devices\<close> argument: for any two
  values of it and the same config it builds the same engine, \<open>MaxEngine(config)\<close>.
\<close>

theorem create_maxengine_ignores_devices:
  "create_maxengine MaxEngine d1 cfg = create_maxengine MaxEngine d2 cfg
   \<and> create_maxengine MaxEngine d1 cfg = MaxEngine cfg"
  by (simp add: create_maxengine_def)

section \<open>Properties of simple\_timeit\<close>

lemma timed_runs_shape:
  "\<exists>pairs w'. length pairs = k \<and>
     timed_runs f now k outcomes (w, lg) =
       (outcomes @ map duration pairs, (w', lg @ concat (map bracket pairs)))"
proof (induction k arbitrary: outcomes w lg)
  case 0
  show ?case by simp
next
  case (Suc k)
  obtain s w1 where n1: "now w = (s, w1)" by (cases "now w")
  obtain e w2 where n2: "now (f w1) = (e, w2)" by (cases "now (f w1)")
  from Suc.IH [of "outcomes @ [total_seconds (e - s)]" w2 "lg @ [Clock s, Invoke, Clock e]"]
  obtain pairs w' where len: "length pairs = k"
    and run: "timed_runs f now k (outcomes @ [total_seconds (e - s)]) (w2, lg @ [Clock s, Invoke, Clock e])
      = ((outcomes @ [total_seconds (e - s)]) @ map duration pairs,
         (w', (lg @ [Clock s, Invoke, Clock e]) @ concat (map bracket pairs)))"
    by blast
  have "timed_runs f now (Suc k) outcomes (w, lg) =
      (outcomes @ map duration ((s, e) # pairs), (w', lg @ concat (map bracket ((s, e) # pairs))))"
    using n1 n2 run by (simp add: datetime_now_def call_def duration_def bracket_def)
  moreover have "length ((s, e) # pairs) = Suc k" using len by simp
  ultimately show ?case by blast
qed

lemma invocations_append: "invocations (xs @ ys) = invocations xs + invocations ys"
  by (simp add: invocations_def)

lemma invocations_brackets: "invocations (concat (map bracket pairs)) = length pairs"
  by (induction pairs) (simp_all add: invocations_def bracket_def)

text \<open>
  The whole run of \<open>simple_timeit\<close>, for any \<open>tries\<close>: a warm-up call, then one
  bracket of clock readings around each of the \<open>nat tries\<close> timed calls, then the
  print when \<open>verbose\<close>.
\<close>

lemma simple_timeit_run:
  "\<exists>pairs w'. length pairs = nat tries \<and>
     simple_timeit f now (Some tries) (Some verbose) (w, lg) =
       (if pairs = [] then (Inl ZeroDivisionError, (w', lg @ [Invoke]))
        else (Inr (sum_list (map duration pairs) / real (length pairs)),
              (w', lg @ Invoke # concat (map bracket pairs) @
                (if verbose
                 then [Print (sum_list (map duration pairs) / real (length pairs))
                         (map duration pairs)]
                 else []))))"
proof -
  from timed_runs_shape [of "nat tries" f now "[]" "f w" "lg @ [Invoke]"]
  obtain pairs w' where len: "length pairs = nat tries"
    and run: "timed_runs f now (nat tries) [] (f w, lg @ [Invoke]) =
       (map duration pairs, (w', (lg @ [Invoke]) @ concat (map bracket pairs)))"
    by auto
  have "simple_timeit f now (Some tries) (Some verbose) (w, lg) =
       (if pairs = [] then (Inl ZeroDivisionError, (w', lg @ [Invoke]))
        else (Inr (sum_list (map duration pairs) / real (length pairs)),
              (w', lg @ Invoke # concat (map bracket pairs) @
                (if verbose
                 then [Print (sum_list (map duration pairs) / real (length pairs))
                         (map duration pairs)]
                 else []))))"
    using run by (simp add: simple_timeit_def call_def Let_def)
  with len show ?thesis by blast
qed

lemma simple_timeit_defaults:
  "simple_timeit f now None verbose_arg st = simple_timeit f now (Some 5) verbose_arg st"
  "simple_timeit f now tries_arg None st = simple_timeit f now tries_arg (Some True) st"
  by (simp_all add: simple_timeit_def)

text \<open>
  C4. For every \<open>f\<close> and every \<open>tries \<ge> 1\<close>, \<open>simple_timeit(f, tries)\<close> returns the
  arithmetic mean of exactly \<open>tries\<close> durations, each the difference of the two clock
  readings around one call of \<open>f\<close>: their sum divided by their count. \<open>tries\<close>
  defaults to 5.
\<close>

theorem simple_timeit_mean:
  assumes "1 \<le> tries"
  shows "(\<exists>pairs w' printed.
            int (length pairs) = tries
          \<and> simple_timeit f now (Some tries) verbose_arg (w, lg) =
              (Inr (sum_list (map duration pairs) / real (length pairs)),
               (w', lg @ Invoke # concat (map bracket pairs) @ printed))
          \<and> invocations printed = 0)
       \<and> simple_timeit f now None verbose_arg (w, lg)
           = simple_timeit f now (Some 5) verbose_arg (w, lg)"
proof -
  define verbose where "verbose = (case verbose_arg of None \<Rightarrow> True | Some v \<Rightarrow> v)"
  have arg: "simple_timeit f now (Some tries) verbose_arg (w, lg)
      = simple_timeit f now (Some tries) (Some verbose) (w, lg)"
    by (cases verbose_arg) (simp_all add: verbose_def simple_timeit_defaults)
  from simple_timeit_run [of tries f now verbose w lg]
  obtain pairs w' where len: "length pairs = nat tries"
    and run: "simple_timeit f now (Some tries) (Some verbose) (w, lg) =
       (if pairs = [] then (Inl ZeroDivisionError, (w', lg @ [Invoke]))
        else (Inr (sum_list (map duration pairs) / real (length pairs)),
              (w', lg @ Invoke # concat (map bracket pairs) @
                (if verbose
                 then [Print (sum_list (map duration pairs) / real (length pairs))
                         (map duration pairs)]
                 else []))))"
    by blast
  from len assms have ne: "pairs \<noteq> []" by auto
  from len assms have cnt: "int (length pairs) = tries" by simp
  define printed where "printed =
     (if verbose
      then [Print (sum_list (map duration pairs) / real (length pairs)) (map duration pairs)]
      else [])"
  have pr: "invocations printed = 0"
    by (simp add: printed_def invocations_def)
  have "simple_timeit f now (Some tries) verbose_arg (w, lg) =
      (Inr (sum_list (map duration pairs) / real (length pairs)),
       (w', lg @ Invoke # concat (map bracket pairs) @ printed))"
    using arg run ne by (simp add: printed_def)
  with cnt pr have "\<exists>pairs w' printed.
            int (length pairs) = tries
          \<and> simple_timeit f now (Some tries) verbose_arg (w, lg) =
              (Inr (sum_list (map duration pairs) / real (length pairs)),
               (w', lg @ Invoke # concat (map bracket pairs) @ printed))
          \<and> invocations printed = 0"
    by blast
  then show ?thesis by (simp add: simple_timeit_defaults)
qed

theorem simple_timeit_mean_witness:
  "1 \<le> (2::int)
   \<and> (\<exists>pairs w' printed.
            int (length pairs) = 2
          \<and> simple_timeit (\<lambda>t. t + 1500000) (\<lambda>t. (t, t)) (Some 2) (Some False) (0::int, []) =
              (Inr (sum_list (map duration pairs) / real (length pairs)),
               (w', [] @ Invoke # concat (map bracket pairs) @ printed))
          \<and> invocations printed = 0)
   \<and> simple_timeit (\<lambda>t. t + 1500000) (\<lambda>t. (t, t)) (Some 2) (Some False) (0::int, []) =
        (Inr (3 / 2),
         (4500000, [Invoke, Clock 1500000, Invoke, Clock 3000000,
                    Clock 3000000, Invoke, Clock 4500000]))"
proof -
  have h: "1 \<le> (2::int)" by simp
  have ev: "simple_timeit (\<lambda>t. t + 1500000) (\<lambda>t. (t, t)) (Some 2) (Some False) (0::int, []) =
        (Inr (3 / 2),
         (4500000, [Invoke, Clock 1500000, Invoke, Clock 3000000,
                    Clock 3000000, Invoke, Clock 4500000]))"
    by (simp add: simple_timeit_def call_def datetime_now_def total_seconds_def
        Let_def eval_nat_numeral)
  from simple_timeit_mean [OF h, of "\<lambda>t. t + 1500000" "\<lambda>t. (t, t)" "Some False" 0 "[]"]
  have "\<exists>pairs w' printed.
            int (length pairs) = 2
          \<and> simple_timeit (\<lambda>t. t + 1500000) (\<lambda>t. (t, t)) (Some 2) (Some False) (0::int, []) =
              (Inr (sum_list (map duration pairs) / real (length pairs)),
               (w', [] @ Invoke # concat (map bracket pairs) @ printed))
          \<and> invocations printed = 0"
    by (rule conjunct1)
  with h ev show ?thesis by blast
qed

text \<open>
  C10, as the source has it. For \<open>tries \<ge> 0\<close>, \<open>simple_timeit(f, tries)\<close> calls
  \<open>f\<close> exactly \<open>tries + 1\<close> times: first the warm-up call, before any clock reading,
  then \<open>tries\<close> calls that each stand between two clock readings. The result is
  computed from those readings alone: it is the mean of the \<open>tries\<close> bracketed
  durations (ZeroDivisionError when there is none), so the warm-up has no part in it.
\<close>

theorem simple_timeit_invocations:
  assumes "0 \<le> tries"
  shows "\<exists>pairs w' printed.
            int (length pairs) = tries
          \<and> snd (simple_timeit f now (Some tries) verbose_arg (w, lg)) =
               (w', lg @ Invoke # concat (map bracket pairs) @ printed)
          \<and> invocations printed = 0
          \<and> int (invocations (Invoke # concat (map bracket pairs) @ printed)) = tries + 1
          \<and> fst (simple_timeit f now (Some tries) verbose_arg (w, lg)) =
               (if pairs = [] then Inl ZeroDivisionError
                else Inr (sum_list (map duration pairs) / real (length pairs)))"
proof -
  define verbose where "verbose = (case verbose_arg of None \<Rightarrow> True | Some v \<Rightarrow> v)"
  have arg: "simple_timeit f now (Some tries) verbose_arg (w, lg)
      = simple_timeit f now (Some tries) (Some verbose) (w, lg)"
    by (cases verbose_arg) (simp_all add: verbose_def simple_timeit_defaults)
  from simple_timeit_run [of tries f now verbose w lg]
  obtain pairs w' where len: "length pairs = nat tries"
    and run: "simple_timeit f now (Some tries) (Some verbose) (w, lg) =
       (if pairs = [] then (Inl ZeroDivisionError, (w', lg @ [Invoke]))
        else (Inr (sum_list (map duration pairs) / real (length pairs)),
              (w', lg @ Invoke # concat (map bracket pairs) @
                (if verbose
                 then [Print (sum_list (map duration pairs) / real (length pairs))
                         (map duration pairs)]
                 else []))))"
    by blast
  from len assms have cnt: "int (length pairs) = tries" by simp
  define printed where "printed =
     (if verbose \<and> pairs \<noteq> []
      then [Print (sum_list (map duration pairs) / real (length pairs)) (map duration pairs)]
      else [])"
  have pr: "invocations printed = 0"
    by (simp add: printed_def invocations_def)
  have inv: "int (invocations (Invoke # concat (map bracket pairs) @ printed)) = tries + 1"
    using invocations_append [of "[Invoke]" "concat (map bracket pairs) @ printed"]
      invocations_append [of "concat (map bracket pairs)" printed]
      invocations_brackets [of pairs] pr cnt
    by (simp add: invocations_def)
  have s: "snd (simple_timeit f now (Some tries) verbose_arg (w, lg)) =
               (w', lg @ Invoke # concat (map bracket pairs) @ printed)"
    using arg run by (simp add: printed_def)
  have r: "fst (simple_timeit f now (Some tries) verbose_arg (w, lg)) =
               (if pairs = [] then Inl ZeroDivisionError
                else Inr (sum_list (map duration pairs) / real (length pairs)))"
    using arg run by simp
  from cnt s pr inv r show ?thesis by blast
qed

theorem simple_timeit_invocations_witness:
  "0 \<le> (2::int)
   \<and> (\<exists>pairs w' printed.
            int (length pairs) = 2
          \<and> snd (simple_timeit (\<lambda>t. t + 1500000) (\<lambda>t. (t, t)) (Some 2) None (0::int, [])) =
               (w', [] @ Invoke # concat (map bracket pairs) @ printed)
          \<and> invocations printed = 0
          \<and> int (invocations (Invoke # concat (map bracket pairs) @ printed)) = 2 + 1
          \<and> fst (simple_timeit (\<lambda>t. t + 1500000) (\<lambda>t. (t, t)) (Some 2) None (0::int, [])) =
               (if pairs = [] then Inl ZeroDivisionError
                else Inr (sum_list (map duration pairs) / real (length pairs))))
   \<and> invocations (snd (snd
        (simple_timeit (\<lambda>t. t + 1500000) (\<lambda>t. (t, t)) (Some 2) None (0::int, [])))) = 3"
proof -
  have h: "0 \<le> (2::int)" by simp
  have ev: "invocations (snd (snd
        (simple_timeit (\<lambda>t. t + 1500000) (\<lambda>t. (t, t)) (Some 2) None (0::int, [])))) = 3"
    by (simp add: simple_timeit_def call_def datetime_now_def total_seconds_def
        invocations_def Let_def eval_nat_numeral)
  from h ev simple_timeit_invocations [OF h, of "\<lambda>t. t + 1500000" "\<lambda>t. (t, t)" None 0 "[]"]
  show ?thesis by blast
qed

text \<open>
  C10 as stated fails for a negative \<open>tries\<close>: \<open>simple_timeit(f, -1)\<close> still makes the
  warm-up call, so \<open>f\<close> is called once, not \<open>-1 + 1 = 0\<close> times (and the empty
  \<open>outcomes\<close> then raises ZeroDivisionError).
\<close>

theorem simple_timeit_invocations_counterexample:
  "int (invocations (snd (snd
     (simple_timeit (\<lambda>t. t + 1500000) (\<lambda>t. (t, t)) (Some (- 1)) None (0::int, [])))))
     \<noteq> - 1 + 1
   \<and> simple_timeit (\<lambda>t. t + 1500000) (\<lambda>t. (t, t)) (Some (- 1)) None (0::int, [])
     = (Inl ZeroDivisionError, (1500000, [Invoke]))"
  by (simp add: simple_timeit_def call_def invocations_def)

section \<open>Properties of the throughput figure\<close>






section \<open>Properties of the checks before the mesh\<close>

lemma np_product_of_int: "np_product xs = word_of_int (prod_list xs)"
  by (induction xs) (simp_all add: np_product_def)

lemma sint_fits_int64: "fits_int64 k \<Longrightarrow> sint (word_of_int k :: 64 word) = k"
  by (simp add: fits_int64_def signed_of_int signed_take_bit_int_eq_self)

lemma checked_product:
  "sint (np_product (dcn_parallelism a) * np_product (ici_parallelism a))
     = sint (word_of_int (prod_list (dcn_parallelism a) * prod_list (ici_parallelism a)) :: 64 word)"
  by (simp add: np_product_of_int)

text \<open>With fewer than two devices the first assertion fails, whatever the arguments.\<close>

lemma create_mesh_needs_two_devices:
  "num_devices ev \<le> 1 \<Longrightarrow>
     create_mesh a ev = Inl (AssertionError ''You must have at least two devices'')"
  by (simp add: create_mesh_def)

text \<open>
  When the six arguments and their product fit 64 signed bits, the second assertion
  compares the true product with the number of devices.
\<close>

lemma create_mesh_product_mismatch:
  assumes "1 < num_devices ev" and "int64_args a"
    and "fits_int64 (prod_list (dcn_parallelism a) * prod_list (ici_parallelism a))"
    and "prod_list (dcn_parallelism a) * prod_list (ici_parallelism a) \<noteq> int (num_devices ev)"
  shows "create_mesh a ev =
     Inl (AssertionError ''Number of devices does not match the product of the parallelism'')"
proof -
  have "sint (np_product (dcn_parallelism a) * np_product (ici_parallelism a))
      = prod_list (dcn_parallelism a) * prod_list (ici_parallelism a)"
    by (simp only: checked_product sint_fits_int64 [OF assms(3)])
  then show ?thesis
    using assms(1,4) by (simp add: create_mesh_def)
qed

text \<open>
  Under the two preconditions neither of the two assertions fails: the script goes on
  to the multi-slice test and the mesh.
\<close>

lemma create_mesh_preconditions:
  assumes "1 < num_devices ev" and "int (num_devices ev) < 2 ^ 63"
    and "prod_list (dcn_parallelism a) * prod_list (ici_parallelism a) = int (num_devices ev)"
  shows "create_mesh a ev =
     (if multi_slice_env ev then
        (if dcn_data_parallelism a = 1 + max_slice_index ev then
           Inr \<lparr> mesh_devices =
                   Create_hybrid_device_mesh (ici_parallelism a) (dcn_parallelism a),
                 axis_names = [''data'', ''fsdp'', ''tensor''] \<rparr>
         else Inl (AssertionError ''Number of slices given does not match the number fetched from jax devices''))
      else
        Inr \<lparr> mesh_devices = Create_device_mesh (ici_parallelism a),
              axis_names = [''data'', ''fsdp'', ''tensor''] \<rparr>)"
proof -
  have "fits_int64 (int (num_devices ev))"
    using assms(2) by (simp add: fits_int64_def)
  then have "sint (word_of_int (int (num_devices ev)) :: 64 word) = int (num_devices ev)"
    by (rule sint_fits_int64)
  then have "sint (np_product (dcn_parallelism a) * np_product (ici_parallelism a))
      = int (num_devices ev)"
    by (simp only: checked_product assms(3))
  then show ?thesis
    using assms(1) by (simp add: create_mesh_def)
qed

text \<open>
  C7. The script asserts, before it builds a mesh, that there are at least two devices
  and that the product of the six parallelism arguments is the number of devices. The
  second assertion computes the product in 64-bit integers, so it accepts a product
  that differs from the number of devices by a multiple of \<open>2^64\<close>: with
  \<open>--dcn_data_parallelism 4611686018427387905\<close> (\<open>2^62 + 1\<close>) and every other option
  at its default, on four devices, the six arguments are all within the 64-bit range,
  their product is \<open>2^64 + 4\<close>, not 4, both assertions pass and the script builds
  the mesh. The same happens with the large factor among the ici arguments.
\<close>

theorem create_mesh_wrapped_product:
  "int64_args (default_args \<lparr> dcn_data_parallelism := 2 ^ 62 + 1 \<rparr>)
   \<and> prod_list (dcn_parallelism (default_args \<lparr> dcn_data_parallelism := 2 ^ 62 + 1 \<rparr>))
       * prod_list (ici_parallelism (default_args \<lparr> dcn_data_parallelism := 2 ^ 62 + 1 \<rparr>))
     = 2 ^ 64 + 4
   \<and> create_mesh (default_args \<lparr> dcn_data_parallelism := 2 ^ 62 + 1 \<rparr>)
        \<lparr> num_devices = 4, multi_slice_env = False, max_slice_index = 0 \<rparr>
     = Inr \<lparr> mesh_devices = Create_device_mesh [1, 4, 1],
             axis_names = [''data'', ''fsdp'', ''tensor''] \<rparr>
   \<and> int64_args (default_args \<lparr> ici_data_parallelism := 2 ^ 62 + 1 \<rparr>)
   \<and> create_mesh (default_args \<lparr> ici_data_parallelism := 2 ^ 62 + 1 \<rparr>)
        \<lparr> num_devices = 4, multi_slice_env = True, max_slice_index = 0 \<rparr>
     = Inr \<lparr> mesh_devices = Create_hybrid_device_mesh [2 ^ 62 + 1, 4, 1] [1, 1, 1],
             axis_names = [''data'', ''fsdp'', ''tensor''] \<rparr>
   \<and> create_mesh default_args
        \<lparr> num_devices = 4, multi_slice_env = False, max_slice_index = 0 \<rparr>
     = Inr \<lparr> mesh_devices = Create_device_mesh [1, 4, 1],
             axis_names = [''data'', ''fsdp'', ''tensor''] \<rparr>"
  by (simp add: create_mesh_def int64_args_def fits_int64_def default_args_def
      dcn_parallelism_def ici_parallelism_def np_product_def)

section \<open>Properties of the synthetic parameters and data\<close>

lemma random_array_nonneg:
  "list_all (\<lambda>d. 0 \<le> d) shp \<Longrightarrow>
     random_array sampler k shp dt = Inr \<lparr> shape = shp, dtype = dt, entries = sampler k \<rparr>"
  by (simp add: random_array_def)

lemma gen_layer_ok:
  assumes "0 \<le> embedding_dimension a"
  shows "\<exists>l. gen_layer a k = Inr l \<and> layer_ok a l"
proof -
  have shp: "list_all (\<lambda>d. 0 \<le> d) [D_FF a, D_EMB a]"
    using assms by (simp add: D_FF_def D_EMB_def)
  have "gen_layer a k =
      Inr [''EMB2FF'' \<mapsto> scaled \<lparr> shape = [D_FF a, D_EMB a], dtype = Bfloat16,
                                   entries = Normal (Split k 4 0) \<rparr>,
           ''FF2EMB'' \<mapsto> scaled \<lparr> shape = [D_FF a, D_EMB a], dtype = Bfloat16,
                                   entries = Normal (Split k 4 1) \<rparr>]"
    by (simp add: gen_layer_def random_array_nonneg [OF shp])
  moreover have "layer_ok a
      [''EMB2FF'' \<mapsto> scaled \<lparr> shape = [D_FF a, D_EMB a], dtype = Bfloat16,
                                   entries = Normal (Split k 4 0) \<rparr>,
       ''FF2EMB'' \<mapsto> scaled \<lparr> shape = [D_FF a, D_EMB a], dtype = Bfloat16,
                                   entries = Normal (Split k 4 1) \<rparr>]"
    by (auto simp: layer_ok_def scaled_def D_FF_def D_EMB_def)
  ultimately show ?thesis by simp
qed

lemma gen_layers_loop_ok:
  assumes "0 \<le> embedding_dimension a"
  shows "list_all (layer_ok a) acc \<Longrightarrow>
     \<exists>ls. gen_layers_loop a n k acc = Inr ls \<and> length ls = length acc + n
          \<and> list_all (layer_ok a) ls"
proof (induction n arbitrary: k acc)
  case 0
  then show ?case by simp
next
  case (Suc n)
  from gen_layer_ok [OF assms, of "Split k 2 1"]
  obtain l where l: "gen_layer a (Split k 2 1) = Inr l" and ok: "layer_ok a l"
    by blast
  from Suc.prems ok have "list_all (layer_ok a) (acc @ [l])" by simp
  from Suc.IH [OF this, of "Split k 2 0"]
  obtain ls where "gen_layers_loop a n (Split k 2 0) (acc @ [l]) = Inr ls"
    and "length ls = length (acc @ [l]) + n" and "list_all (layer_ok a) ls"
    by blast
  then show ?case using l by simp
qed

text \<open>
  C6, as the source has it. For sizes that are not negative: when \<open>num_layers \<ge> 0\<close>
  and \<open>embedding_dimension \<ge> 0\<close>, \<open>gen_layers\<close> returns, for every key, a tuple of
  exactly \<open>num_layers\<close> layers, each a dict with exactly the keys \<open>"EMB2FF"\<close> and
  \<open>"FF2EMB"\<close>, both bfloat16 arrays of shape \<open>(4 * embedding_dimension,
  embedding_dimension)\<close>; when \<open>batch_size \<ge> 0\<close> and \<open>embedding_dimension \<ge> 0\<close>,
  \<open>gen_data\<close> returns a bfloat16 array of shape \<open>(BATCH, embedding_dimension)\<close> with
  \<open>BATCH = num_devices * batch_size\<close>.
\<close>

theorem gen_layers_and_data_shapes:
  "(0 \<le> num_layers a \<and> 0 \<le> embedding_dimension a \<longrightarrow>
      (\<exists>layers. gen_layers a k = Inr layers
         \<and> int (length layers) = num_layers a
         \<and> list_all (layer_ok a) layers))
   \<and> (0 \<le> batch_size a \<and> 0 \<le> embedding_dimension a \<longrightarrow>
      (\<exists>x. gen_data a n k = Inr x
         \<and> shape x = [BATCH a n, embedding_dimension a]
         \<and> dtype x = Bfloat16
         \<and> BATCH a n = int n * batch_size a))"
proof -
  have layers: "\<exists>layers. gen_layers a k = Inr layers
         \<and> int (length layers) = num_layers a
         \<and> list_all (layer_ok a) layers"
    if "0 \<le> num_layers a" and emb: "0 \<le> embedding_dimension a"
  proof -
    from gen_layers_loop_ok [OF emb, of "[]" "nat (NUM_LAYERS a)" k]
    obtain ls where "gen_layers_loop a (nat (NUM_LAYERS a)) k [] = Inr ls"
      and "length ls = length ([] :: layer list) + nat (NUM_LAYERS a)"
      and "list_all (layer_ok a) ls"
      by auto
    then show ?thesis
      using that(1) by (simp add: gen_layers_def NUM_LAYERS_def)
  qed
  have data: "\<exists>x. gen_data a n k = Inr x
         \<and> shape x = [BATCH a n, embedding_dimension a]
         \<and> dtype x = Bfloat16
         \<and> BATCH a n = int n * batch_size a"
    if "0 \<le> batch_size a" and "0 \<le> embedding_dimension a"
  proof -
    have "list_all (\<lambda>d. 0 \<le> d) [BATCH a n, D_EMB a]"
      using that by (simp add: BATCH_def D_EMB_def)
    from random_array_nonneg [OF this, of Uniform k Bfloat16]
    show ?thesis by (simp add: gen_data_def D_EMB_def BATCH_def)
  qed
  from layers data show ?thesis by blast
qed

theorem gen_layers_and_data_shapes_witness:
  "0 \<le> num_layers (default_args \<lparr> num_layers := 2, embedding_dimension := 8, batch_size := 3 \<rparr>)
   \<and> 0 \<le> embedding_dimension
        (default_args \<lparr> num_layers := 2, embedding_dimension := 8, batch_size := 3 \<rparr>)
   \<and> 0 \<le> batch_size (default_args \<lparr> num_layers := 2, embedding_dimension := 8, batch_size := 3 \<rparr>)
   \<and> (\<exists>layers.
        gen_layers (default_args \<lparr> num_layers := 2, embedding_dimension := 8, batch_size := 3 \<rparr>)
          (PRNGKey 0) = Inr layers
        \<and> length layers = 2
        \<and> list_all
            (layer_ok (default_args \<lparr> num_layers := 2, embedding_dimension := 8, batch_size := 3 \<rparr>))
            layers)
   \<and> gen_data (default_args \<lparr> num_layers := 2, embedding_dimension := 8, batch_size := 3 \<rparr>) 4
        (PRNGKey 0)
      = Inr \<lparr> shape = [12, 8], dtype = Bfloat16, entries = Uniform (PRNGKey 0) \<rparr>"
proof -
  define a where
    "a = default_args \<lparr> num_layers := 2, embedding_dimension := 8, batch_size := 3 \<rparr>"
  have h: "0 \<le> num_layers a" "0 \<le> embedding_dimension a" "0 \<le> batch_size a"
    by (simp_all add: a_def)
  from gen_layers_and_data_shapes [of a "PRNGKey 0" 4] h
  have "\<exists>layers. gen_layers a (PRNGKey 0) = Inr layers
         \<and> int (length layers) = num_layers a
         \<and> list_all (layer_ok a) layers"
    by blast
  then have l: "\<exists>layers. gen_layers a (PRNGKey 0) = Inr layers
         \<and> length layers = 2 \<and> list_all (layer_ok a) layers"
    by (simp add: a_def)
  have d: "gen_data a 4 (PRNGKey 0)
      = Inr \<lparr> shape = [12, 8], dtype = Bfloat16, entries = Uniform (PRNGKey 0) \<rparr>"
    by (simp add: a_def gen_data_def random_array_def BATCH_def D_EMB_def default_args_def)
  from h l d show ?thesis unfolding a_def by blast
qed

text \<open>
  C6 as stated fails for sizes below zero. With \<open>--num_layers -1\<close> the loop of
  \<open>gen_layers\<close> does not run and the result is the empty tuple, which has 0 layers
  and not -1; with \<open>--batch_size -1\<close> the shape of \<open>gen_data\<close> has a negative
  dimension and the library refuses it.
\<close>

theorem gen_layers_and_data_shapes_counterexample:
  "gen_layers (default_args \<lparr> num_layers := - 1 \<rparr>) (PRNGKey 0) = Inr []
   \<and> \<not> (\<exists>layers. gen_layers (default_args \<lparr> num_layers := - 1 \<rparr>) (PRNGKey 0) = Inr layers
           \<and> int (length layers) = num_layers (default_args \<lparr> num_layers := - 1 \<rparr>))
   \<and> gen_data (default_args \<lparr> batch_size := - 1 \<rparr>) 4 (PRNGKey 0) = Inl InvalidShape"
  by (simp add: gen_layers_def NUM_LAYERS_def gen_data_def random_array_def BATCH_def
      D_EMB_def default_args_def)

section \<open>Properties of the saved files\<close>





end
